theory Spec2Isabelle
  imports Main
begin

section \<open>The header \<open>examples/native-cmake/native/src/mylib.h\<close>\<close>

text \<open>
  The repository's source is one C++ header. It has no function body: what it does, it does
  in the preprocessor (a conditional macro definition under an include guard) and in one
  declaration. The header is embedded as the list of its lines, each line as its preprocessing
  tokens, and it is run by the preprocessor and read by the declaration reader defined below.
\<close>

subsection \<open>Tokens and lines\<close>

datatype token = Ident string | Punct string | StrLit string | Number string

datatype line =
    Pragma_once
  | Ifdef string
  | Else
  | Endif
  | Define string "token list"
  | Text "token list"

text \<open>The replacement list of line 4: \<^verbatim>\<open>__declspec(dllexport)\<close>.\<close>

definition declspec_dllexport :: "token list" where
  "declspec_dllexport = [Ident ''__declspec'', Punct ''('', Ident ''dllexport'', Punct '')'']"

text \<open>The replacement list of line 6: \<^verbatim>\<open>__attribute__((visibility("default")))\<close>.\<close>

definition attribute_visibility_default :: "token list" where
  "attribute_visibility_default =
     [Ident ''__attribute__'', Punct ''('', Punct ''('', Ident ''visibility'', Punct ''('',
      StrLit ''default'', Punct '')'', Punct '')'', Punct '')'']"

text \<open>Line 10: \<^verbatim>\<open>MYLIB_EXPORT int mylib_add(int a, int b);\<close>.\<close>

definition mylib_add_line :: "token list" where
  "mylib_add_line =
     [Ident ''MYLIB_EXPORT'', Ident ''int'', Ident ''mylib_add'', Punct ''('',
      Ident ''int'', Ident ''a'', Punct '','', Ident ''int'', Ident ''b'', Punct '')'',
      Punct '';'']"

text \<open>The eleven lines of the header, in order; lines 2 and 8 are empty.\<close>

definition mylib_h :: "line list" where
  "mylib_h =
     [Pragma_once,
      Text [],
      Ifdef ''_WIN32'',
      Define ''MYLIB_EXPORT'' declspec_dllexport,
      Else,
      Define ''MYLIB_EXPORT'' attribute_visibility_default,
      Endif,
      Text [],
      Text [Ident ''extern'', StrLit ''C'', Punct ''{''],
      Text mylib_add_line,
      Text [Punct ''}'']]"

definition mylib_h_name :: string where
  "mylib_h_name = ''mylib.h''"

subsection \<open>The preprocessor\<close>

text \<open>
  A configuration is the table of the macros defined before the header is read (by the
  compiler for its target, or on the command line). The table is an association list, the
  newest definition first; only object-like macros occur.
\<close>

type_synonym macros = "(string \<times> token list) list"

definition is_defined :: "macros \<Rightarrow> string \<Rightarrow> bool" where
  "is_defined ms x = (map_of ms x \<noteq> None)"

text \<open>
  Macro replacement of a line of text: an identifier that names a macro is replaced by the
  macro's replacement list, which is scanned again with that macro's name no longer
  replaceable.
\<close>

function expand :: "macros \<Rightarrow> string list \<Rightarrow> token list \<Rightarrow> token list" where
  "expand ms hide [] = []"
| "expand ms hide (Ident x # ts) =
     (if x \<in> set hide then Ident x # expand ms hide ts
      else case map_of ms x of
             None \<Rightarrow> Ident x # expand ms hide ts
           | Some body \<Rightarrow> expand ms (x # hide) body @ expand ms hide ts)"
| "expand ms hide (Punct p # ts) = Punct p # expand ms hide ts"
| "expand ms hide (StrLit s # ts) = StrLit s # expand ms hide ts"
| "expand ms hide (Number n # ts) = Number n # expand ms hide ts"
  by pat_completeness auto

lemma expand_hide_decreases:
  assumes "x \<notin> set hide" and "map_of ms x = Some body"
  shows "card (fst ` set ms - set (x # hide)) < card (fst ` set ms - set hide)"
proof -
  from assms(2) have "(x, body) \<in> set ms" by (rule map_of_SomeD)
  then have "x \<in> fst ` set ms" by force
  with assms(1) have mem: "x \<in> fst ` set ms - set hide" by simp
  have fin: "finite (fst ` set ms - set hide)" by simp
  have "fst ` set ms - set (x # hide) = (fst ` set ms - set hide) - {x}" by auto
  with card_Diff1_less [OF fin mem] show ?thesis by simp
qed

termination expand
  apply (relation "(\<lambda>(ms, hide, ts). card (fst ` set ms - set hide)) <*mlex*>
                   measure (\<lambda>(ms, hide, ts). length ts)")
       apply (simp add: wf_mlex)
      apply (simp add: mlex_leq)
     apply (simp add: mlex_leq)
    apply (rule mlex_less)
    apply (simp only: prod.case)
    apply (erule (1) expand_hide_decreases)
   apply (simp_all add: mlex_leq)
  done

datatype pp_error = Else_without_if | Else_after_else | Endif_without_if | Unterminated_if

datatype diag = Macro_redefined string

record pp_state =
  macros :: macros
  once_files :: "string list"
  out :: "token list"
  diags :: "diag list"

text \<open>
  An open conditional: whether its current group is read, and whether its \<^verbatim>\<open>#else\<close> has
  been seen. A line is read when every open conditional reads its current group.
\<close>

type_synonym cond = "bool \<times> bool"

definition active :: "cond list \<Rightarrow> bool" where
  "active cs = list_all fst cs"

text \<open>
  \<^verbatim>\<open>#define\<close>: the new definition is the one in force afterwards; defining a name again with
  a different replacement list is diagnosed.
\<close>

definition define_macro :: "string \<Rightarrow> token list \<Rightarrow> pp_state \<Rightarrow> pp_state" where
  "define_macro x body st =
     (case map_of (macros st) x of
        None \<Rightarrow> st\<lparr>macros := (x, body) # macros st\<rparr>
      | Some old \<Rightarrow>
          if old = body then st
          else st\<lparr>macros := (x, body) # macros st, diags := diags st @ [Macro_redefined x]\<rparr>)"

fun step :: "string \<Rightarrow> cond list \<Rightarrow> line \<Rightarrow> pp_state \<Rightarrow> pp_error + (cond list \<times> pp_state)" where
  "step f cs Pragma_once st =
     Inr (cs, if active cs then st\<lparr>once_files := f # once_files st\<rparr> else st)"
| "step f cs (Ifdef x) st = Inr ((is_defined (macros st) x, False) # cs, st)"
| "step f [] Else st = Inl Else_without_if"
| "step f ((t, e) # cs) Else st =
     (if e then Inl Else_after_else else Inr ((\<not> t, True) # cs, st))"
| "step f [] Endif st = Inl Endif_without_if"
| "step f (c # cs) Endif st = Inr (cs, st)"
| "step f cs (Define x body) st = Inr (cs, if active cs then define_macro x body st else st)"
| "step f cs (Text ts) st =
     Inr (cs, if active cs then st\<lparr>out := out st @ expand (macros st) [] ts\<rparr> else st)"

fun run_lines :: "string \<Rightarrow> cond list \<Rightarrow> line list \<Rightarrow> pp_state \<Rightarrow> pp_error + pp_state" where
  "run_lines f cs [] st = (if cs = [] then Inr st else Inl Unterminated_if)"
| "run_lines f cs (l # ls) st =
     (case step f cs l st of
        Inl e \<Rightarrow> Inl e
      | Inr (cs', st') \<Rightarrow> run_lines f cs' ls st')"

text \<open>
  \<^verbatim>\<open>#include\<close> of a file: a file that has marked itself with \<^verbatim>\<open>#pragma once\<close> is not read
  again.
\<close>

definition include_file :: "string \<Rightarrow> line list \<Rightarrow> pp_state \<Rightarrow> pp_error + pp_state" where
  "include_file f ls st = (if f \<in> set (once_files st) then Inr st else run_lines f [] ls st)"

fun include_times :: "nat \<Rightarrow> string \<Rightarrow> line list \<Rightarrow> pp_state \<Rightarrow> pp_error + pp_state" where
  "include_times 0 f ls st = Inr st"
| "include_times (Suc n) f ls st =
     (case include_file f ls st of
        Inl e \<Rightarrow> Inl e
      | Inr st' \<Rightarrow> include_times n f ls st')"

definition initial :: "macros \<Rightarrow> pp_state" where
  "initial ms = \<lparr>macros = ms, once_files = [], out = [], diags = []\<rparr>"

text \<open>A translation unit that includes the header once, under configuration \<open>ms\<close>.\<close>

definition preprocess :: "macros \<Rightarrow> pp_error + pp_state" where
  "preprocess ms = include_file mylib_h_name mylib_h (initial ms)"

subsection \<open>Reading the declarations\<close>

text \<open>
  What the compiler proper sees is the token sequence the preprocessor leaves. The reader
  below accepts linkage blocks \<^verbatim>\<open>extern "lang" { ... }\<close> and function declarations
  \<^verbatim>\<open>attributes type name ( type name , ... ) trailer ;\<close> and rejects everything else, so a
  successful reading accounts for every token of the unit.
\<close>

record fun_decl =
  linkage :: string
  attrs :: "token list list"
  ret_type :: "token list"
  name :: string
  params :: "(token list \<times> string) list"
  trailer :: "token list"

datatype read_error =
    Unbalanced_brace
  | Unclosed_block
  | Unterminated_declaration
  | Bad_declaration "token list"

definition is_attr_keyword :: "token \<Rightarrow> bool" where
  "is_attr_keyword t = (t = Ident ''__declspec'' \<or> t = Ident ''__attribute__'')"

text \<open>
  The attribute specifiers in front of a declaration: each is an attribute keyword followed
  by a balanced parenthesised group. \<open>d\<close> is the nesting depth inside the group being read,
  \<open>cur\<close> the specifier read so far (empty between specifiers).
\<close>

fun split_attrs :: "nat \<Rightarrow> token list \<Rightarrow> token list \<Rightarrow> (token list list \<times> token list) option" where
  "split_attrs d cur [] = (if cur = [] then Some ([], []) else None)"
| "split_attrs d cur (t # ts) =
     (if cur = [] then
        (if is_attr_keyword t then split_attrs 0 [t] ts else Some ([], t # ts))
      else if t = Punct ''('' then split_attrs (Suc d) (cur @ [t]) ts
      else if t = Punct '')'' then
        (case d of
           0 \<Rightarrow> None
         | Suc d' \<Rightarrow>
             if d' = 0 then map_option (\<lambda>(as, r). ((cur @ [t]) # as, r)) (split_attrs 0 [] ts)
             else split_attrs d' (cur @ [t]) ts)
      else if d = 0 then None
      else split_attrs d (cur @ [t]) ts)"

definition is_type_token :: "token \<Rightarrow> bool" where
  "is_type_token t =
     (case t of Ident x \<Rightarrow> True | Punct p \<Rightarrow> p = ''*'' \<or> p = ''&'' \<or> p = ''&&'' | _ \<Rightarrow> False)"

text \<open>A type followed by the declared name: \<^verbatim>\<open>int a\<close>, \<^verbatim>\<open>int mylib_add\<close>.\<close>

definition read_typed_name :: "token list \<Rightarrow> (token list \<times> string) option" where
  "read_typed_name ts =
     (case rev ts of
        Ident x # ty \<Rightarrow> if ty \<noteq> [] \<and> list_all is_type_token ty then Some (rev ty, x) else None
      | _ \<Rightarrow> None)"

fun split_commas :: "token list \<Rightarrow> token list \<Rightarrow> token list list" where
  "split_commas cur [] = [cur]"
| "split_commas cur (t # ts) =
     (if t = Punct '','' then cur # split_commas [] ts else split_commas (cur @ [t]) ts)"

definition read_params :: "token list \<Rightarrow> (token list \<times> string) list option" where
  "read_params ts = (if ts = [] then Some [] else those (map read_typed_name (split_commas [] ts)))"

definition read_decl :: "string \<Rightarrow> token list \<Rightarrow> fun_decl option" where
  "read_decl lk ts =
     (case split_attrs 0 [] ts of
        None \<Rightarrow> None
      | Some (as, rest) \<Rightarrow>
          (case (read_typed_name (takeWhile (\<lambda>t. t \<noteq> Punct ''('') rest),
                 dropWhile (\<lambda>t. t \<noteq> Punct ''('') rest) of
             (Some (ty, f), lp # inner) \<Rightarrow>
               (case (read_params (takeWhile (\<lambda>t. t \<noteq> Punct '')'') inner),
                      dropWhile (\<lambda>t. t \<noteq> Punct '')'') inner) of
                  (Some ps, rp # tr) \<Rightarrow>
                    Some \<lparr>linkage = lk, attrs = as, ret_type = ty, name = f, params = ps,
                          trailer = tr\<rparr>
                | _ \<Rightarrow> None)
           | _ \<Rightarrow> None))"

text \<open>The language linkage in force: that of the innermost open block, C++ outside any.\<close>

definition current_linkage :: "string list \<Rightarrow> string" where
  "current_linkage lks = (case lks of [] \<Rightarrow> ''C++'' | l # _ \<Rightarrow> l)"

fun read_items :: "string list \<Rightarrow> token list \<Rightarrow> token list \<Rightarrow> read_error + fun_decl list" where
  "read_items lks cur [] =
     (if cur \<noteq> [] then Inl Unterminated_declaration
      else if lks \<noteq> [] then Inl Unclosed_block
      else Inr [])"
| "read_items lks cur (t # ts) =
     (if t = Punct ''{'' then
        (case cur of
           [Ident e, StrLit l] \<Rightarrow>
             if e = ''extern'' then read_items (l # lks) [] ts else Inl (Bad_declaration cur)
         | _ \<Rightarrow> Inl (Bad_declaration cur))
      else if t = Punct ''}'' then
        (if cur \<noteq> [] then Inl Unterminated_declaration
         else case lks of
                [] \<Rightarrow> Inl Unbalanced_brace
              | l # lks' \<Rightarrow> read_items lks' [] ts)
      else if t = Punct '';'' then
        (case read_decl (current_linkage lks) cur of
           None \<Rightarrow> Inl (Bad_declaration cur)
         | Some d \<Rightarrow>
             (case read_items lks [] ts of
                Inl e \<Rightarrow> Inl e
              | Inr ds \<Rightarrow> Inr (d # ds)))
      else read_items lks (cur @ [t]) ts)"

datatype error = Preprocessing pp_error | Reading read_error

text \<open>
  The declarations of a translation unit that includes the header \<open>n\<close> times under
  configuration \<open>ms\<close>, and those of the header included once.
\<close>

definition unit_decls :: "nat \<Rightarrow> macros \<Rightarrow> error + fun_decl list" where
  "unit_decls n ms =
     (case include_times n mylib_h_name mylib_h (initial ms) of
        Inl e \<Rightarrow> Inl (Preprocessing e)
      | Inr st \<Rightarrow>
          (case read_items [] [] (out st) of
             Inl e \<Rightarrow> Inl (Reading e)
           | Inr ds \<Rightarrow> Inr ds))"

definition header_decls :: "macros \<Rightarrow> error + fun_decl list" where
  "header_decls ms = unit_decls 1 ms"

text \<open>The export annotation of a declaration: either of the two attributes of lines 4 and 6.\<close>

definition exported :: "fun_decl \<Rightarrow> bool" where
  "exported d =
     (declspec_dllexport \<in> set (attrs d) \<or> attribute_visibility_default \<in> set (attrs d))"

subsection \<open>Configurations that leave the header's names alone\<close>

fun ident_names :: "token list \<Rightarrow> string list" where
  "ident_names [] = []"
| "ident_names (Ident x # ts) = x # ident_names ts"
| "ident_names (t # ts) = ident_names ts"

fun line_names :: "line \<Rightarrow> string list" where
  "line_names (Define x body) = x # ident_names body"
| "line_names (Text ts) = ident_names ts"
| "line_names l = []"

definition header_names :: "line list \<Rightarrow> string list" where
  "header_names ls = concat (map line_names ls)"

text \<open>
  A plain configuration defines none of the identifiers that the header defines or writes in
  its text and replacement lists (\<^verbatim>\<open>int\<close>, \<^verbatim>\<open>mylib_add\<close>, \<^verbatim>\<open>MYLIB_EXPORT\<close>, ...) as a macro.
  The name tested by line 3, \<^verbatim>\<open>_WIN32\<close>, is not among them: a plain configuration may
  define it or not.
\<close>

definition plain_config :: "macros \<Rightarrow> bool" where
  "plain_config ms = list_all (\<lambda>x. \<not> is_defined ms x) (header_names mylib_h)"

subsection \<open>Calling a declared function\<close>

text \<open>
  How an argument reaches a parameter is fixed by the parameter's declared type: a reference
  parameter is another name for the caller's variable, a pointer parameter can hold its
  address, any other parameter is a fresh object initialised with the argument's value.
\<close>

datatype passing = By_value | By_pointer | By_reference

definition passing_of :: "token list \<Rightarrow> passing" where
  "passing_of ty =
     (if Punct ''&'' \<in> set ty \<or> Punct ''&&'' \<in> set ty then By_reference
      else if Punct ''*'' \<in> set ty then By_pointer
      else By_value)"

text \<open>
  The caller's variables, by name. The argument variables that a call hands over to the
  body: those in the position of a reference parameter, and those in the position of a
  pointer parameter (there the argument names the variable whose address is passed).
\<close>

type_synonym 'v store = "string \<Rightarrow> 'v"

definition handed_over :: "fun_decl \<Rightarrow> string list \<Rightarrow> string list" where
  "handed_over d args =
     map snd (filter (\<lambda>(p, x). p \<noteq> By_value) (zip (map (passing_of \<circ> fst) (params d)) args))"

text \<open>
  The definition of the function is not in the header: a call is modelled for any body. A
  body receives the values of its arguments and the store, and yields its outcome and the
  store as it leaves it. Of its writes, those take effect that go to a variable it can
  reach: one that it can reach on its own (a variable with static storage, or one whose
  address it holds from elsewhere; the list \<open>own\<close>), or one handed over by the call.
  Every other variable of the caller keeps its value.
\<close>

definition call ::
  "fun_decl \<Rightarrow> string list \<Rightarrow> ('v list \<Rightarrow> 'v store \<Rightarrow> 'r \<times> 'v store) \<Rightarrow>
     string list \<Rightarrow> 'v store \<Rightarrow> 'r \<times> 'v store" where
  "call d own body args s =
     (case body (map s args) s of
        (r, s') \<Rightarrow>
          (r, \<lambda>x. if x \<in> set own \<or> x \<in> set (handed_over d args) then s' x else s x))"

text \<open>
  An example body and an example store: the body returns the sum of its arguments and
  writes 0 to the variable \<open>g\<close>.
\<close>

definition sum_and_reset :: "string \<Rightarrow> int list \<Rightarrow> int store \<Rightarrow> int \<times> int store" where
  "sum_and_reset g vs s = (sum_list vs, s(g := 0))"

definition two_three :: "int store" where
  "two_three = (\<lambda>v. 0)(''x'' := 2, ''y'' := 3)"

subsection \<open>What the header is expected to yield\<close>

text \<open>
  The two values the lemmas below compare the run of the header with: the replacement list
  chosen by lines 3 to 7, and the declaration of line 10 inside the block of lines 9 to 11.
\<close>

definition export_attr :: "macros \<Rightarrow> token list" where
  "export_attr ms =
     (if is_defined ms ''_WIN32'' then declspec_dllexport else attribute_visibility_default)"

definition mylib_add_decl :: "macros \<Rightarrow> fun_decl" where
  "mylib_add_decl ms =
     \<lparr>linkage = ''C'', attrs = [export_attr ms], ret_type = [Ident ''int''],
      name = ''mylib_add'',
      params = [([Ident ''int''], ''a''), ([Ident ''int''], ''b'')], trailer = []\<rparr>"

section \<open>Running the header\<close>

lemma map_of_define_macro: "map_of (macros (define_macro x body st)) x = Some body"
  by (simp add: define_macro_def split: option.splits)

lemma define_macro_fields:
  "macros (define_macro x body (st\<lparr>once_files := fs\<rparr>)) = macros (define_macro x body st)"
  "diags (define_macro x body (st\<lparr>once_files := fs\<rparr>)) = diags (define_macro x body st)"
  "once_files (define_macro x body st) = once_files st"
  "out (define_macro x body st) = out st"
  by (simp_all add: define_macro_def split: option.splits)

lemma define_macro_fresh:
  "map_of (macros st) x = None \<Longrightarrow> diags (define_macro x body st) = diags st"
  "map_of (macros st) x = None \<Longrightarrow> macros (define_macro x body st) = (x, body) # macros st"
  by (simp_all add: define_macro_def)

text \<open>
  The run of the eleven lines from any state and under any file name: no preprocessing error,
  one \<^verbatim>\<open>#define\<close> executed, the file marked, lines 9 to 11 written out.
\<close>

lemma run_mylib_h:
  "\<exists>st'. run_lines f [] mylib_h st = Inr st' \<and>
      macros st' = macros (define_macro ''MYLIB_EXPORT'' (export_attr (macros st)) st) \<and>
      diags st' = diags (define_macro ''MYLIB_EXPORT'' (export_attr (macros st)) st) \<and>
      once_files st' = f # once_files st \<and>
      out st' = out st @ expand (macros st') [] [Ident ''extern'', StrLit ''C'', Punct ''{''] @
                expand (macros st') [] mylib_add_line @ [Punct ''}'']"
  by (simp add: mylib_h_def active_def export_attr_def define_macro_fields
      del: expand.simps(2))

lemma preprocess_macro:
  "\<exists>st. preprocess ms = Inr st \<and> map_of (macros st) ''MYLIB_EXPORT'' = Some (export_attr ms)"
proof -
  from run_mylib_h [of mylib_h_name "initial ms"] obtain st where
    "run_lines mylib_h_name [] mylib_h (initial ms) = Inr st" and
    "macros st =
       macros (define_macro ''MYLIB_EXPORT'' (export_attr (macros (initial ms))) (initial ms))"
    by blast
  then have "preprocess ms = Inr st" and
    "map_of (macros st) ''MYLIB_EXPORT'' = Some (export_attr ms)"
    by (simp_all add: preprocess_def include_file_def initial_def map_of_define_macro)
  then show ?thesis by blast
qed

lemma attrs_differ: "declspec_dllexport \<noteq> attribute_visibility_default"
  by (simp add: declspec_dllexport_def attribute_visibility_default_def)

section \<open>The declaration read from the header\<close>

lemma plain_configD:
  assumes "plain_config ms"
  shows "map_of ms ''MYLIB_EXPORT'' = None" "map_of ms ''__declspec'' = None"
    "map_of ms ''dllexport'' = None" "map_of ms ''__attribute__'' = None"
    "map_of ms ''visibility'' = None" "map_of ms ''extern'' = None"
    "map_of ms ''int'' = None" "map_of ms ''mylib_add'' = None"
    "map_of ms ''a'' = None" "map_of ms ''b'' = None"
  using assms
  by (simp_all add: plain_config_def header_names_def mylib_h_def is_defined_def
      declspec_dllexport_def attribute_visibility_default_def mylib_add_line_def)

lemma expand_mylib_add_line:
  assumes "plain_config ms"
  shows "expand ((''MYLIB_EXPORT'', export_attr ms') # ms) [] mylib_add_line =
           export_attr ms' @ tl mylib_add_line"
  by (simp add: mylib_add_line_def plain_configD [OF assms] export_attr_def
      declspec_dllexport_def attribute_visibility_default_def)

text \<open>Under a plain configuration the preprocessor leaves lines 9 to 11 with only
  \<^verbatim>\<open>MYLIB_EXPORT\<close> replaced.\<close>

lemma preprocess_plain:
  assumes "plain_config ms"
  shows "\<exists>st. preprocess ms = Inr st \<and>
     out st = [Ident ''extern'', StrLit ''C'', Punct ''{''] @ export_attr ms @
              tl mylib_add_line @ [Punct ''}'']"
proof -
  from run_mylib_h [of mylib_h_name "initial ms"] obtain st where
    st: "run_lines mylib_h_name [] mylib_h (initial ms) = Inr st"
      "macros st =
         macros (define_macro ''MYLIB_EXPORT'' (export_attr (macros (initial ms))) (initial ms))"
      "out st = out (initial ms) @
         expand (macros st) [] [Ident ''extern'', StrLit ''C'', Punct ''{''] @
         expand (macros st) [] mylib_add_line @ [Punct ''}'']"
    by blast
  have m: "macros st = (''MYLIB_EXPORT'', export_attr ms) # ms"
    using st(2) plain_configD(1) [OF assms] by (simp add: define_macro_fresh initial_def)
  have "preprocess ms = Inr st"
    using st(1) by (simp add: preprocess_def include_file_def initial_def)
  moreover have "out st = [Ident ''extern'', StrLit ''C'', Punct ''{''] @ export_attr ms @
      tl mylib_add_line @ [Punct ''}'']"
    using st(3)
    by (simp add: m expand_mylib_add_line [OF assms] initial_def plain_configD [OF assms])
  ultimately show ?thesis by blast
qed

lemma read_header_tokens:
  "read_items [] [] ([Ident ''extern'', StrLit ''C'', Punct ''{''] @ export_attr ms @
     tl mylib_add_line @ [Punct ''}'']) = Inr [mylib_add_decl ms]"
  by (simp add: export_attr_def mylib_add_line_def mylib_add_decl_def declspec_dllexport_def
      attribute_visibility_default_def read_decl_def is_attr_keyword_def read_typed_name_def
      read_params_def is_type_token_def current_linkage_def)

lemma header_decls_plain:
  assumes "plain_config ms"
  shows "header_decls ms = Inr [mylib_add_decl ms]"
proof -
  from preprocess_plain [OF assms] obtain st where
    "preprocess ms = Inr st" and
    "out st = [Ident ''extern'', StrLit ''C'', Punct ''{''] @ export_attr ms @
       tl mylib_add_line @ [Punct ''}'']"
    by blast
  with read_header_tokens [of ms] show ?thesis
    by (simp add: header_decls_def unit_decls_def preprocess_def)
qed

section \<open>The export annotation\<close>

text \<open>
  Claim C2. The export annotation applied to \<^verbatim>\<open>mylib_add\<close> is platform-conditional. Under
  every configuration the header is preprocessed without error, and afterwards
  \<^verbatim>\<open>MYLIB_EXPORT\<close> stands for \<^verbatim>\<open>__declspec(dllexport)\<close> when \<^verbatim>\<open>_WIN32\<close> is defined in the
  configuration and for \<^verbatim>\<open>__attribute__((visibility("default")))\<close> when it is not. Under
  every plain configuration that replacement list is what the declaration of \<^verbatim>\<open>mylib_add\<close>
  carries as its one attribute: \<^verbatim>\<open>__declspec(dllexport)\<close> when \<^verbatim>\<open>_WIN32\<close> is defined,
  \<^verbatim>\<open>__attribute__((visibility("default")))\<close> when it is not.
\<close>

theorem MYLIB_EXPORT_platform_conditional:
  "(\<exists>st. preprocess ms = Inr st \<and>
      (is_defined ms ''_WIN32'' \<longrightarrow>
         map_of (macros st) ''MYLIB_EXPORT'' = Some declspec_dllexport) \<and>
      (\<not> is_defined ms ''_WIN32'' \<longrightarrow>
         map_of (macros st) ''MYLIB_EXPORT'' = Some attribute_visibility_default)) \<and>
   (plain_config ms \<longrightarrow>
      (\<exists>d. header_decls ms = Inr [d] \<and> name d = ''mylib_add'' \<and>
         (is_defined ms ''_WIN32'' \<longrightarrow> attrs d = [declspec_dllexport]) \<and>
         (\<not> is_defined ms ''_WIN32'' \<longrightarrow> attrs d = [attribute_visibility_default])))"
proof (intro conjI impI)
  show "\<exists>st. preprocess ms = Inr st \<and>
      (is_defined ms ''_WIN32'' \<longrightarrow>
         map_of (macros st) ''MYLIB_EXPORT'' = Some declspec_dllexport) \<and>
      (\<not> is_defined ms ''_WIN32'' \<longrightarrow>
         map_of (macros st) ''MYLIB_EXPORT'' = Some attribute_visibility_default)"
    using preprocess_macro [of ms] by (auto simp add: export_attr_def)
next
  assume "plain_config ms"
  then have "header_decls ms = Inr [mylib_add_decl ms]" by (rule header_decls_plain)
  then show "\<exists>d. header_decls ms = Inr [d] \<and> name d = ''mylib_add'' \<and>
         (is_defined ms ''_WIN32'' \<longrightarrow> attrs d = [declspec_dllexport]) \<and>
         (\<not> is_defined ms ''_WIN32'' \<longrightarrow> attrs d = [attribute_visibility_default])"
    by (simp add: mylib_add_decl_def export_attr_def)
qed

theorem MYLIB_EXPORT_platform_conditional_witness:
  "plain_config [(''_WIN32'', [Number ''1''])] \<and>
   is_defined [(''_WIN32'', [Number ''1''])] ''_WIN32'' \<and>
   (\<exists>st. preprocess [(''_WIN32'', [Number ''1''])] = Inr st \<and>
      map_of (macros st) ''MYLIB_EXPORT'' = Some declspec_dllexport) \<and>
   (\<exists>d. header_decls [(''_WIN32'', [Number ''1''])] = Inr [d] \<and> name d = ''mylib_add'' \<and>
      attrs d = [declspec_dllexport]) \<and>
   plain_config [] \<and> \<not> is_defined [] ''_WIN32'' \<and>
   (\<exists>st. preprocess [] = Inr st \<and>
      map_of (macros st) ''MYLIB_EXPORT'' = Some attribute_visibility_default) \<and>
   (\<exists>d. header_decls [] = Inr [d] \<and> name d = ''mylib_add'' \<and>
      attrs d = [attribute_visibility_default])"
proof -
  have win: "plain_config [(''_WIN32'', [Number ''1''])]"
    by (simp add: plain_config_def header_names_def mylib_h_def is_defined_def
      declspec_dllexport_def attribute_visibility_default_def mylib_add_line_def)
  have other: "plain_config []"
    by (simp add: plain_config_def header_names_def mylib_h_def is_defined_def
      declspec_dllexport_def attribute_visibility_default_def mylib_add_line_def)
  have def: "is_defined [(''_WIN32'', [Number ''1''])] ''_WIN32''" "\<not> is_defined [] ''_WIN32''"
    by (simp_all add: is_defined_def)
  from win other def MYLIB_EXPORT_platform_conditional [of "[(''_WIN32'', [Number ''1''])]"]
    MYLIB_EXPORT_platform_conditional [of "[]"]
  show ?thesis by simp
qed

section \<open>Exhaustive and exclusive\<close>

text \<open>
  Claim C8. The conditional definition is exhaustive and exclusive: under every configuration,
  whether or not it defines \<^verbatim>\<open>_WIN32\<close>, \<^verbatim>\<open>MYLIB_EXPORT\<close> is defined once the header has
  been read, and it stands for exactly one of the two attributes (for one and not for the
  other).
\<close>

theorem MYLIB_EXPORT_exactly_one:
  "\<exists>st. preprocess ms = Inr st \<and> is_defined (macros st) ''MYLIB_EXPORT'' \<and>
     ((map_of (macros st) ''MYLIB_EXPORT'' = Some declspec_dllexport) \<noteq>
      (map_of (macros st) ''MYLIB_EXPORT'' = Some attribute_visibility_default))"
  using preprocess_macro [of ms] attrs_differ
  by (auto simp add: export_attr_def is_defined_def)

theorem MYLIB_EXPORT_exactly_one_witness:
  "(\<exists>st. preprocess [] = Inr st \<and> is_defined (macros st) ''MYLIB_EXPORT'' \<and>
     map_of (macros st) ''MYLIB_EXPORT'' \<noteq> Some declspec_dllexport \<and>
     map_of (macros st) ''MYLIB_EXPORT'' = Some attribute_visibility_default) \<and>
   (\<exists>st. preprocess [(''_WIN32'', [Number ''1''])] = Inr st \<and>
     is_defined (macros st) ''MYLIB_EXPORT'' \<and>
     map_of (macros st) ''MYLIB_EXPORT'' = Some declspec_dllexport \<and>
     map_of (macros st) ''MYLIB_EXPORT'' \<noteq> Some attribute_visibility_default)"
proof -
  have unix: "map_of (macros st) ''MYLIB_EXPORT'' = Some attribute_visibility_default"
    if "preprocess [] = Inr st" for st
    using that by (auto simp add: preprocess_def include_file_def initial_def mylib_h_def
        mylib_h_name_def active_def is_defined_def define_macro_def simp del: expand.simps(2))
  have win: "map_of (macros st) ''MYLIB_EXPORT'' = Some declspec_dllexport"
    if "preprocess [(''_WIN32'', [Number ''1''])] = Inr st" for st
    using that by (auto simp add: preprocess_def include_file_def initial_def mylib_h_def
        mylib_h_name_def active_def is_defined_def define_macro_def simp del: expand.simps(2))
  from MYLIB_EXPORT_exactly_one [of "[]"]
    MYLIB_EXPORT_exactly_one [of "[(''_WIN32'', [Number ''1''])]"] unix win
  show ?thesis by blast
qed


section \<open>Repeated inclusion\<close>

lemma include_times_marked:
  "f \<in> set (once_files st) \<Longrightarrow> include_times n f ls st = Inr st"
  by (induction n) (simp_all add: include_file_def)

lemma include_mylib_h:
  "\<exists>st'. include_file f mylib_h st = Inr st' \<and> f \<in> set (once_files st') \<and>
     (\<not> is_defined (macros st) ''MYLIB_EXPORT'' \<longrightarrow> diags st' = diags st)"
proof (cases "f \<in> set (once_files st)")
  case True
  then show ?thesis by (simp add: include_file_def)
next
  case False
  with run_mylib_h [of f st] show ?thesis
    by (auto simp add: include_file_def is_defined_def define_macro_fresh)
qed

lemma include_times_mylib_h:
  assumes "0 < n"
  shows "include_times n f mylib_h st = include_file f mylib_h st"
proof -
  from assms obtain k where n: "n = Suc k" by (cases n) auto
  from include_mylib_h [of f st] obtain st' where
    "include_file f mylib_h st = Inr st'" and "f \<in> set (once_files st')" by blast
  then show ?thesis by (simp add: n include_times_marked)
qed

text \<open>
  Without line 1 the header is read again at each inclusion: two inclusions write the
  declaration out twice.
\<close>

lemma unguarded_header_repeats:
  "\<exists>st ds. include_times 2 mylib_h_name (tl mylib_h) (initial []) = Inr st \<and>
     read_items [] [] (out st) = Inr ds \<and> map name ds = [''mylib_add'', ''mylib_add'']"
  by (simp add: numeral_2_eq_2 include_file_def initial_def mylib_h_def active_def is_defined_def
      define_macro_def mylib_add_line_def attribute_visibility_default_def
      read_decl_def is_attr_keyword_def read_typed_name_def
      read_params_def is_type_token_def current_linkage_def)

text \<open>
  Claim C9. Inclusion is idempotent: from any state of the translation unit, including
  \<^verbatim>\<open>mylib.h\<close> any number of times (at least once) leaves exactly the state that including it
  once leaves, which is not an error; no \<^verbatim>\<open>MYLIB_EXPORT\<close> redefinition is diagnosed when the
  name was not defined before; and the declarations of a unit that includes the header \<open>n\<close>
  times are those of the header included once.
\<close>

theorem include_idempotent:
  assumes "0 < n"
  shows "include_times n mylib_h_name mylib_h st = include_file mylib_h_name mylib_h st \<and>
    (\<exists>st'. include_file mylib_h_name mylib_h st = Inr st' \<and>
       (\<not> is_defined (macros st) ''MYLIB_EXPORT'' \<longrightarrow> diags st' = diags st)) \<and>
    unit_decls n ms = header_decls ms"
proof -
  have eq: "include_times k mylib_h_name mylib_h s = include_file mylib_h_name mylib_h s"
    if "0 < k" for k s
    using that by (rule include_times_mylib_h)
  have "unit_decls n ms = header_decls ms"
    unfolding header_decls_def unit_decls_def eq [OF assms] eq [OF zero_less_one] ..
  with eq [OF assms, of st] include_mylib_h [of mylib_h_name st] show ?thesis by blast
qed

theorem include_idempotent_witness:
  "(0::nat) < 3 \<and> \<not> is_defined (macros (initial [])) ''MYLIB_EXPORT'' \<and>
   include_times 3 mylib_h_name mylib_h (initial []) =
     include_file mylib_h_name mylib_h (initial []) \<and>
   (\<exists>st'. include_file mylib_h_name mylib_h (initial []) = Inr st' \<and> diags st' = []) \<and>
   unit_decls 3 [] = header_decls []"
proof -
  have three: "(0::nat) < 3" by simp
  have fresh: "\<not> is_defined (macros (initial [])) ''MYLIB_EXPORT''"
    by (simp add: is_defined_def initial_def)
  have "diags (initial []) = []" by (simp add: initial_def)
  with three fresh include_idempotent [OF three, of "initial []" "[]"] show ?thesis by auto
qed

section \<open>The declaration\<close>

text \<open>
  Claim C1. Under every plain configuration the header declares exactly one function, in a
  declaration with a single declarator: its name is \<^verbatim>\<open>mylib_add\<close>, it returns \<^verbatim>\<open>int\<close>, its
  parameters are \<^verbatim>\<open>int a\<close> and \<^verbatim>\<open>int b\<close>, nothing stands between the closing parenthesis and
  the semicolon, and, declared inside the \<^verbatim>\<open>extern "C"\<close> block, it has C language linkage.
\<close>

theorem header_declares_mylib_add:
  assumes "plain_config ms"
  shows "\<exists>d. header_decls ms = Inr [d] \<and> name d = ''mylib_add'' \<and>
     ret_type d = [Ident ''int''] \<and>
     params d = [([Ident ''int''], ''a''), ([Ident ''int''], ''b'')] \<and>
     trailer d = [] \<and>
     linkage d = ''C''"
  using header_decls_plain [OF assms] by (simp add: mylib_add_decl_def)

theorem header_declares_mylib_add_witness:
  "plain_config [(''_WIN32'', [Number ''1''])] \<and>
   (\<exists>d. header_decls [(''_WIN32'', [Number ''1''])] = Inr [d] \<and> name d = ''mylib_add'' \<and>
      ret_type d = [Ident ''int''] \<and>
      params d = [([Ident ''int''], ''a''), ([Ident ''int''], ''b'')] \<and>
      trailer d = [] \<and>
      linkage d = ''C'')"
proof -
  have plain: "plain_config [(''_WIN32'', [Number ''1''])]"
    by (simp add: plain_config_def header_names_def mylib_h_def is_defined_def
      declspec_dllexport_def attribute_visibility_default_def mylib_add_line_def)
  from plain header_declares_mylib_add [OF plain] show ?thesis by blast
qed

text \<open>
  Outside a linkage block the same declaration would have C++ linkage: the linkage read
  above comes from lines 9 and 11.
\<close>

lemma without_extern_block:
  "\<exists>d. read_items [] [] (attribute_visibility_default @ tl mylib_add_line) = Inr [d] \<and>
     linkage d = ''C++''"
  by (simp add: mylib_add_line_def attribute_visibility_default_def read_decl_def
      is_attr_keyword_def read_typed_name_def read_params_def is_type_token_def
      current_linkage_def)

text \<open>
  Claim C7. The header's interface is a single component: under every plain configuration
  the whole of its text reads as exactly one declaration, and that declaration is, field by
  field, the function \<^verbatim>\<open>mylib_add\<close> with C linkage, the one export attribute of the
  configuration, return type \<^verbatim>\<open>int\<close>, parameters \<^verbatim>\<open>int a\<close> and \<^verbatim>\<open>int b\<close>, and nothing after the
  parameter list. No other function, type or variable is declared.
\<close>

theorem single_exported_declaration:
  assumes "plain_config ms"
  shows "\<exists>ds. header_decls ms = Inr ds \<and> length ds = 1 \<and>
     list_all (\<lambda>d. exported d \<and>
        d = \<lparr>linkage = ''C'',
             attrs = [if is_defined ms ''_WIN32'' then declspec_dllexport
                      else attribute_visibility_default],
             ret_type = [Ident ''int''], name = ''mylib_add'',
             params = [([Ident ''int''], ''a''), ([Ident ''int''], ''b'')],
             trailer = []\<rparr>) ds"
  using header_decls_plain [OF assms]
  by (simp add: mylib_add_decl_def exported_def export_attr_def)

theorem single_exported_declaration_witness:
  "plain_config [] \<and>
   (\<exists>ds. header_decls [] = Inr ds \<and> length ds = 1 \<and>
      list_all (\<lambda>d. exported d \<and>
        d = \<lparr>linkage = ''C'',
             attrs = [attribute_visibility_default],
             ret_type = [Ident ''int''], name = ''mylib_add'',
             params = [([Ident ''int''], ''a''), ([Ident ''int''], ''b'')],
             trailer = []\<rparr>) ds)"
proof -
  have plain: "plain_config []"
    by (simp add: plain_config_def header_names_def mylib_h_def is_defined_def
      declspec_dllexport_def attribute_visibility_default_def mylib_add_line_def)
  from plain single_exported_declaration [OF plain] show ?thesis
    by (simp add: is_defined_def)
qed

section \<open>Arguments\<close>


text \<open>A reference parameter hands the caller's variable over to the body.\<close>

lemma call_by_reference_writes:
  "snd (call \<lparr>linkage = ''C++'', attrs = [], ret_type = [Ident ''void''], name = ''reset'',
               params = [([Ident ''int'', Punct ''&''], ''a'')], trailer = []\<rparr>
          [] (sum_and_reset ''x'') [''x''] two_three) ''x'' = 0"
  by (simp add: call_def handed_over_def passing_of_def sum_and_reset_def two_three_def)




end
